theory Spec2Isabelle
  imports Complex_Main "HOL-Library.Multiset"
begin

section \<open>JavaScript values used by the extension\<close>

text \<open>
  The extension computes on JavaScript numbers and strings.  Numbers are modelled as
  rationals, so the rounding of IEEE doubles is outside the model.  For that reason the
  properties of the handlers below keep the order of operations of the code (a sum is the
  left fold the code computes, a difference is taken in the code's order), and compare and
  clamp as the code does; only the lemmas on the grouping that are marked so rest on exact
  arithmetic.  A value that is either a number
  or \<open>null\<close> (an empty cell), or either a number or \<open>NaN\<close> (the result of
  \<open>parseFloat\<close> on text that is no number), is a \<open>rat option\<close> with \<open>None\<close> for
  \<open>null\<close> and \<open>NaN\<close>.  Strings are \<open>string\<close>; \<open>getCellValueAsString\<close> gives the
  empty string for an empty cell.  Field and table names (several of them carry accents)
  are constructors of the datatypes \<open>field_name\<close> and \<open>table\<close>.
\<close>

type_synonym num = rat

definition num_or :: "num option \<Rightarrow> num \<Rightarrow> num" where
  \<comment> \<open>\<open>v || d\<close> for a number, \<open>null\<close> or \<open>NaN\<close>: the falsy values are \<open>null\<close>, \<open>NaN\<close> and \<open>0\<close>.\<close>
  "num_or v d = (case v of None \<Rightarrow> d | Some x \<Rightarrow> if x = 0 then d else x)"

definition str_or :: "string \<Rightarrow> string \<Rightarrow> string" where
  \<comment> \<open>\<open>s || d\<close> for a string: only the empty string is falsy.\<close>
  "str_or s d = (if s = [] then d else s)"


definition is_space :: "char \<Rightarrow> bool" where
  \<comment> \<open>The white space of \<open>String.prototype.trim\<close> among the code units below 256, which
      are the characters of the model: tab, line feed, vertical tab, form feed, carriage
      return, space and the no-break space U+00A0.  (The white space above U+00FF, such as
      U+FEFF or U+2028, cannot occur in a string of the model.)\<close>
  "is_space c =
     (c \<in> set [CHR 0x09, CHR 0x0A, CHR 0x0B, CHR 0x0C, CHR 0x0D, CHR '' '', CHR 0xA0])"

definition trim :: "string \<Rightarrow> string" where
  "trim s = rev (dropWhile is_space (rev (dropWhile is_space s)))"

section \<open>Records of the base\<close>

datatype table = LPO_TABLE | PEDIDOS_TABLE | PAGOS_TABLE | METODOS_PAGO_TABLE

datatype field_name =
    Estatus | NoDePedido | HistorialDeEstatus
  | FechaPedido | CostosAdicionales | GastosAdicionales | Productos
  | Pedido | MetodoDePagoAdmin | Abono | IDPago | FechaPago | Descripcion | Notas
  | QuienRealizoPago | NumeroDeReferencia | TarjetaDeDebito

datatype cell =
    Text string
  | Number num
  | Null
  | Choice string
  | Links "string list"

text \<open>
  \<open>Choice s\<close> is the single-select value \<open>{name: s}\<close>, \<open>Links ids\<close> the linked-record
  value \<open>[{id: ...}, ...]\<close>.  The fields of a write are an association list in the
  order the object literal lists them; a field that is not in the list is omitted from
  the write, a field mapped to \<open>Null\<close> is written as \<open>null\<close>.
\<close>

type_synonym fields = "(field_name \<times> cell) list"

text \<open>A line of the table of order lines, as the components read it.\<close>

record lpo_record =
  rec_id :: string
  rec_estatus :: string
  rec_no_pedido :: string
  rec_linea :: string
  rec_costo :: "num option"
  rec_historial :: string

text \<open>An order, as \<open>PagarPedidoModal\<close> reads it.\<close>

record pedido_record =
  ped_id :: string
  ped_total_costo :: "num option"
  ped_monto_pagos :: "num option"


section \<open>The record store\<close>

text \<open>
  The calls of the SDK that write.  A handler's trace is the list of the calls it
  issued, in order.  The store answers a call, given the calls issued before it, with
  \<open>Inr id\<close> (accepted; \<open>id\<close> is the id of the created record and is unused for an
  update) or \<open>Inl msg\<close> (the promise rejects with an error whose message is \<open>msg\<close>:
  a batch over the limit of 50 records, a missing permission, an invalid value).
\<close>

datatype call =
    CreateRecordAsync table fields
  | UpdateRecordAsync table string fields
  | UpdateRecordsAsync table "(string \<times> fields) list"

type_synonym store = "call list \<Rightarrow> call \<Rightarrow> string + string"

datatype alert =
    OrderNumberRequired
  | FullPaymentRequired
  | SelectPaymentMethod
  | InvalidAmount
  | ErrorConfirmingOrder string
  | InvalidPayment
  | NoPaymentsAdded
  | ErrorSavingPayment string
  | NoOpenRecords nat
  | RecordsWillBeSkipped nat
  | ErrorUpdatingRecords string

definition append_history :: "string \<Rightarrow> string \<Rightarrow> string" where
  \<comment> \<open>\<open>`${h || ''}${h ? '\n' : ''}${entry}`\<close>\<close>
  "append_history h entry = str_or h [] @ (if h \<noteq> [] then [CHR 0x0A] else []) @ entry"

section \<open>Confirmados: grouping of the lines\<close>

record group =
  pedidoNum :: string
  linea :: string
  records :: "lpo_record list"
  totalCosto :: num

text \<open>
  \<open>groupedByPedido\<close> reduces the lines into an object keyed by
  \<open>`${pedidoNum}-${linea}`\<close> and returns \<open>Object.values\<close> of it.  The object is an
  association list in insertion order: every key holds the separator \<open>-\<close> after a
  non-empty first part, so no key is an array index (which \<open>Object.values\<close> would list
  first) and no key is a property inherited from \<open>Object.prototype\<close>.
\<close>

definition group_key :: "lpo_record \<Rightarrow> string" where
  "group_key r = str_or (rec_no_pedido r) ''Sin No.'' @ ''-'' @ rec_linea r"

definition group_step :: "(string \<times> group) list \<Rightarrow> lpo_record \<Rightarrow> (string \<times> group) list" where
  "group_step groups r =
     (let key = group_key r;
          groups1 =
            (if map_of groups key = None
             then groups @ [(key, \<lparr>pedidoNum = str_or (rec_no_pedido r) ''Sin No.'',
                                   linea = rec_linea r, records = [], totalCosto = 0\<rparr>)]
             else groups)
      in map (\<lambda>(k, g).
               if k = key
               then (k, g\<lparr>records := records g @ [r],
                          totalCosto := totalCosto g + num_or (rec_costo r) 0\<rparr>)
               else (k, g)) groups1)"

definition recordsByPedido :: "lpo_record list \<Rightarrow> (string \<times> group) list" where
  "recordsByPedido recordsToConfirm = foldl group_step [] recordsToConfirm"

definition groupedByPedido :: "lpo_record list \<Rightarrow> group list" where
  "groupedByPedido recordsToConfirm = map snd (recordsByPedido recordsToConfirm)"

section \<open>Confirmados: the settlement modal\<close>

definition brandStatus :: "(string \<times> string) list" where
  "brandStatus =
     [(''Belcorp'', ''Pendiente de Pago''),
      (''Betterware'', ''Pendiente de Pago''),
      (''Cklass'', ''Pendiente de Pago''),
      (''Andrea'', ''Pagado''),
      (''Price Shoes'', ''Pagado''),
      (''Bibiana'', ''Pendiente de Pago''),
      (''Andre Badi'', ''Pagado''),
      (''Nice'', ''Pendiente de Pago''),
      (''Joyeria'', ''Pendiente de Pago''),
      (''Vianney'', ''Pagado''),
      (''Intima'', ''Pagado''),
      (''Elefantito'', ''Pagado''),
      (''Esquimal'', ''Pagado''),
      (''Concord'', ''Pagado''),
      (''Avon'', ''Pendiente de Pago''),
      (''Otros'', ''Pendiente de Pago'')]"

definition allowedPedidoStatuses :: "string list" where
  "allowedPedidoStatuses = [''Pagado'', ''Pendiente de Pago'', ''Pago Incompleto'']"

definition allowedLineaStatuses :: "string list" where
  "allowedLineaStatuses = [''Pagado'', ''Pendiente de Pago'', ''Pago Incompleto'']"

text \<open>A payment queued in \<open>ConfirmarPedidoModal\<close>.\<close>

record payment_confirmar =
  pc_methodId :: string
  pc_amount :: num
  pc_idPago :: string
  pc_fechaPago :: string
  pc_descripcion :: string
  pc_notas :: string

text \<open>
  The state of \<open>ConfirmarPedidoModal\<close>.  \<open>costosAdicionales\<close> and
  \<open>gastosAdicionales\<close> hold what \<open>parseFloat\<close> makes of the two inputs (\<open>None\<close> is
  \<open>NaN\<close>), \<open>paymentAmount\<close> likewise; \<open>paymentMethodId\<close> is \<open>null\<close> or an id.
\<close>

record confirmar_state =
  pedidoNumero :: string
  pedidoFecha :: string
  costosAdicionales :: "num option"
  gastosAdicionales :: "num option"
  paymentMethodId :: "string option"
  paymentAmount :: "num option"
  payments_confirmar :: "payment_confirmar list"

definition totalPaid_confirmar :: "payment_confirmar list \<Rightarrow> num" where
  \<comment> \<open>\<open>payments.reduce((sum, p) => sum + p.amount, 0)\<close>\<close>
  "totalPaid_confirmar ps = foldl (\<lambda>sum p. sum + pc_amount p) 0 ps"

definition extraCost :: "confirmar_state \<Rightarrow> num" where
  "extraCost st = num_or (costosAdicionales st) 0"

definition extraExpenses :: "confirmar_state \<Rightarrow> num" where
  "extraExpenses st = num_or (gastosAdicionales st) 0"

definition totalDue :: "group \<Rightarrow> confirmar_state \<Rightarrow> num" where
  "totalDue g st = totalCosto g + extraCost st + extraExpenses st"

definition remaining_confirmar :: "group \<Rightarrow> confirmar_state \<Rightarrow> num" where
  "remaining_confirmar g st = max (totalDue g st - totalPaid_confirmar (payments_confirmar st)) 0"

text \<open>
  \<open>brandStatus\<close> is an object literal, so a lookup that finds no entry of the table
  still finds the members inherited from \<open>Object.prototype\<close>: functions, and the
  prototype itself for \<open>__proto__\<close>.  Such a value is truthy and is no string.
\<close>

datatype js_value = Str string | Inherited

definition object_prototype_members :: "string list" where
  "object_prototype_members =
     [''constructor'', ''hasOwnProperty'', ''isPrototypeOf'', ''propertyIsEnumerable'',
      ''toLocaleString'', ''toString'', ''valueOf'', ''__defineGetter__'',
      ''__defineSetter__'', ''__lookupGetter__'', ''__lookupSetter__'', ''__proto__'']"

definition brandStatus_lookup :: "string \<Rightarrow> js_value option" where
  \<comment> \<open>\<open>brandStatus[key]\<close>; \<open>None\<close> is \<open>undefined\<close>.\<close>
  "brandStatus_lookup key =
     (case map_of brandStatus key of
        Some s \<Rightarrow> Some (Str s)
      | None \<Rightarrow> if key \<in> set object_prototype_members then Some Inherited else None)"

text \<open>
  \<open>brandStatus[group.linea] || 'Pendiente de Pago'\<close>.  Every status of the table is a
  non-empty string, so the default is taken exactly when the lookup is \<open>undefined\<close>.
\<close>

definition preferredStatus :: "group \<Rightarrow> js_value" where
  "preferredStatus g =
     (case brandStatus_lookup (linea g) of
        None \<Rightarrow> Str ''Pendiente de Pago''
      | Some (Str s) \<Rightarrow> Str (str_or s ''Pendiente de Pago'')
      | Some Inherited \<Rightarrow> Inherited)"

definition canLeavePending :: "group \<Rightarrow> bool" where
  \<comment> \<open>\<open>preferredStatus === 'Pendiente de Pago'\<close>\<close>
  "canLeavePending g = (preferredStatus g = Str ''Pendiente de Pago'')"

text \<open>
  \<open>handleAddPayment\<close> of the settlement modal.  The four \<open>prompt\<close> answers
  (already defaulted to the empty string) are arguments.  The result is the alert
  shown, if any, and the new state.
\<close>

definition handleAddPayment_confirmar ::
    "group \<Rightarrow> string \<Rightarrow> string \<Rightarrow> string \<Rightarrow> string \<Rightarrow> confirmar_state
      \<Rightarrow> alert option \<times> confirmar_state" where
  "handleAddPayment_confirmar g idPago fechaPago descripcion notas st =
     (case paymentMethodId st of
        None \<Rightarrow> (Some SelectPaymentMethod, st)
      | Some methodId \<Rightarrow>
          if methodId = [] then (Some SelectPaymentMethod, st)
          else (case paymentAmount st of
            None \<Rightarrow> (Some InvalidAmount, st)
          | Some amount \<Rightarrow>
              if amount = 0 \<or> amount \<le> 0 then (Some InvalidAmount, st)
              else
                let adjusted = (if amount > remaining_confirmar g st
                                then remaining_confirmar g st else amount)
                in (None,
                    st\<lparr>payments_confirmar := payments_confirmar st @
                         [\<lparr>pc_methodId = methodId, pc_amount = adjusted,
                           pc_idPago = idPago, pc_fechaPago = fechaPago,
                           pc_descripcion = descripcion, pc_notas = notas\<rparr>],
                       paymentAmount := None\<rparr>)))"

definition pedidoStatus :: "num \<Rightarrow> num \<Rightarrow> string" where
  "pedidoStatus remaining totalPaid =
     (if remaining > 0
      then (if totalPaid > 0 then ''Pago Incompleto'' else ''Pendiente de Pago'')
      else ''Pagado'')"

definition fallbackStatus :: "string list \<Rightarrow> string" where
  \<comment> \<open>\<open>choices.includes('Pendiente de Pago') ? 'Pendiente de Pago'
        : (choices[0] || 'Pendiente de Pago')\<close>\<close>
  "fallbackStatus choices =
     (if ''Pendiente de Pago'' \<in> set choices then ''Pendiente de Pago''
      else (case choices of
              [] \<Rightarrow> ''Pendiente de Pago''
            | c # _ \<Rightarrow> str_or c ''Pendiente de Pago''))"

definition safeStatus :: "string list \<Rightarrow> string list \<Rightarrow> string \<Rightarrow> string" where
  \<comment> \<open>The validation both \<open>safePedidoStatus\<close> and \<open>safeLineaStatus\<close> apply to a string.\<close>
  "safeStatus allowed choices s =
     (if s \<in> set allowed \<and> s \<in> set choices then s else fallbackStatus choices)"

definition safePedidoStatus :: "string list \<Rightarrow> group \<Rightarrow> confirmar_state \<Rightarrow> string" where
  "safePedidoStatus pedidoStatusChoices g st =
     safeStatus allowedPedidoStatuses pedidoStatusChoices
       (pedidoStatus (remaining_confirmar g st) (totalPaid_confirmar (payments_confirmar st)))"

definition rawLineaStatus :: "group \<Rightarrow> confirmar_state \<Rightarrow> js_value" where
  \<comment> \<open>\<open>preferredStatus || pedidoStatus\<close>\<close>
  "rawLineaStatus g st =
     (case preferredStatus g of
        Str s \<Rightarrow>
          Str (str_or s
                (pedidoStatus (remaining_confirmar g st)
                   (totalPaid_confirmar (payments_confirmar st))))
      | Inherited \<Rightarrow> Inherited)"

definition safeLineaStatus :: "string list \<Rightarrow> group \<Rightarrow> confirmar_state \<Rightarrow> string" where
  \<comment> \<open>No list of strings includes an inherited member, so that one takes the fallback.\<close>
  "safeLineaStatus lineaStatusChoices g st =
     (case rawLineaStatus g st of
        Str s \<Rightarrow> safeStatus allowedLineaStatuses lineaStatusChoices s
      | Inherited \<Rightarrow> fallbackStatus lineaStatusChoices)"

definition text_or_null :: "string \<Rightarrow> cell" where
  \<comment> \<open>\<open>s || null\<close>\<close>
  "text_or_null s = (if s = [] then Null else Text s)"

definition pedido_fields ::
    "string list \<Rightarrow> string \<Rightarrow> group \<Rightarrow> confirmar_state \<Rightarrow> fields" where
  "pedido_fields pedidoStatusChoices timestamp g st =
     [(NoDePedido, Text (trim (pedidoNumero st))),
      (Estatus, Choice (safePedidoStatus pedidoStatusChoices g st)),
      (FechaPedido, text_or_null (pedidoFecha st)),
      (CostosAdicionales, Number (extraCost st)),
      (GastosAdicionales, Number (extraExpenses st)),
      (HistorialDeEstatus,
         Text (timestamp @ '' - Creado y establecido a '' @ safePedidoStatus pedidoStatusChoices g st)),
      (Productos, Links (map rec_id (records g)))]"

definition pago_fields_confirmar :: "string \<Rightarrow> payment_confirmar \<Rightarrow> fields" where
  "pago_fields_confirmar newPedidoId payment =
     [(Pedido, Links [newPedidoId]),
      (MetodoDePagoAdmin, Links [pc_methodId payment]),
      (Abono, Number (pc_amount payment)),
      (IDPago, text_or_null (pc_idPago payment)),
      (FechaPago, text_or_null (pc_fechaPago payment)),
      (Descripcion, text_or_null (pc_descripcion payment)),
      (Notas, text_or_null (pc_notas payment))]"

text \<open>
  The loop over the queued payments: one \<open>createRecordAsync\<close> each, in order; the
  first rejection leaves the loop (it is thrown to the handler's \<open>catch\<close>).
\<close>

fun create_pagos_confirmar ::
    "store \<Rightarrow> call list \<Rightarrow> string \<Rightarrow> payment_confirmar list \<Rightarrow> string option \<times> call list" where
  "create_pagos_confirmar sto tr newPedidoId [] = (None, tr)"
| "create_pagos_confirmar sto tr newPedidoId (payment # rest) =
     (let c = CreateRecordAsync PAGOS_TABLE (pago_fields_confirmar newPedidoId payment)
      in case sto tr c of
           Inl msg \<Rightarrow> (Some msg, tr @ [c])
         | Inr _ \<Rightarrow> create_pagos_confirmar sto (tr @ [c]) newPedidoId rest)"

definition linea_update ::
    "string list \<Rightarrow> string \<Rightarrow> group \<Rightarrow> confirmar_state \<Rightarrow> lpo_record \<Rightarrow> string \<times> fields" where
  "linea_update lineaStatusChoices timestamp g st r =
     (rec_id r,
      [(Estatus, Choice (safeLineaStatus lineaStatusChoices g st)),
       (NoDePedido, Text (trim (pedidoNumero st))),
       (HistorialDeEstatus,
          Text (append_history (rec_historial r)
                 (timestamp @ '' - Asignado No. de Pedido '' @ trim (pedidoNumero st)
                    @ '' y cambiado a '' @ safeLineaStatus lineaStatusChoices g st)))])"

text \<open>
  \<open>handleConfirm\<close>.  The result is the alerts shown, the \<open>successData\<close> set (brand,
  number of lines, cost of the group) if the handler reached it, and the trace of the
  calls issued to the store.
\<close>

definition handleConfirm ::
    "store \<Rightarrow> string list \<Rightarrow> string list \<Rightarrow> string \<Rightarrow> group \<Rightarrow> confirmar_state
      \<Rightarrow> alert list \<times> (string \<times> nat \<times> num) option \<times> call list" where
  "handleConfirm sto pedidoStatusChoices lineaStatusChoices timestamp g st =
     (if pedidoNumero st = [] \<or> trim (pedidoNumero st) = []
      then ([OrderNumberRequired], None, [])
      else if remaining_confirmar g st > 0 \<and> \<not> canLeavePending g
      then ([FullPaymentRequired], None, [])
      else
        let c1 = CreateRecordAsync PEDIDOS_TABLE (pedido_fields pedidoStatusChoices timestamp g st)
        in case sto [] c1 of
             Inl msg \<Rightarrow> ([ErrorConfirmingOrder msg], None, [c1])
           | Inr newPedidoId \<Rightarrow>
               (case create_pagos_confirmar sto [c1] newPedidoId (payments_confirmar st) of
                  (Some msg, tr) \<Rightarrow> ([ErrorConfirmingOrder msg], None, tr)
                | (None, tr) \<Rightarrow>
                    let c3 = UpdateRecordsAsync LPO_TABLE
                               (map (linea_update lineaStatusChoices timestamp g st) (records g))
                    in (case sto tr c3 of
                          Inl msg \<Rightarrow> ([ErrorConfirmingOrder msg], None, tr @ [c3])
                        | Inr _ \<Rightarrow>
                            ([], Some (linea g, length (records g), totalCosto g), tr @ [c3]))))"

section \<open>Solicitados: the payment modal\<close>

text \<open>A payment queued in \<open>PagarPedidoModal\<close>; the three optional values are \<open>null\<close> or a string.\<close>

record payment_pagar =
  pp_metodoId :: string
  pp_amount :: num
  pp_quienPago :: "string option"
  pp_referencia :: "string option"
  pp_tarjeta :: "string option"

text \<open>
  The state of \<open>PagarPedidoModal\<close>.  \<open>abono\<close> holds what \<open>parseFloat\<close> makes of the
  input (\<open>None\<close> is \<open>NaN\<close>); \<open>metodoPagoId\<close> and \<open>quienPago\<close> are \<open>null\<close> or a string.
\<close>

record pagar_state =
  metodoPagoId :: "string option"
  abono :: "num option"
  quienPago :: "string option"
  referencia :: string
  tarjeta :: string
  payments_pagar :: "payment_pagar list"



definition totalCosto_pagar :: "pedido_record \<Rightarrow> num" where
  "totalCosto_pagar pedido = num_or (ped_total_costo pedido) 0"

definition alreadyPaid :: "pedido_record \<Rightarrow> num" where
  "alreadyPaid pedido = num_or (ped_monto_pagos pedido) 0"

definition addedPaymentsTotal :: "payment_pagar list \<Rightarrow> num" where
  "addedPaymentsTotal ps = foldl (\<lambda>sum p. sum + pp_amount p) 0 ps"

definition remaining_pagar :: "pedido_record \<Rightarrow> payment_pagar list \<Rightarrow> num" where
  "remaining_pagar pedido ps =
     max (totalCosto_pagar pedido - alreadyPaid pedido - addedPaymentsTotal ps) 0"




definition field_if_truthy :: "field_name \<Rightarrow> (string \<Rightarrow> cell) \<Rightarrow> string option \<Rightarrow> fields" where
  \<comment> \<open>\<open>if (v) pagoRecord[f] = mk(v)\<close>: the field is set for a non-empty string only.\<close>
  "field_if_truthy f mk v =
     (case v of None \<Rightarrow> [] | Some s \<Rightarrow> if s = [] then [] else [(f, mk s)])"

definition pago_fields_pagar :: "pedido_record \<Rightarrow> string \<Rightarrow> payment_pagar \<Rightarrow> fields" where
  \<comment> \<open>\<open>idPago\<close> is the generated \<open>`PAY-${Date.now()}-${...}`\<close>.\<close>
  "pago_fields_pagar pedido idPago payment =
     [(Pedido, Links [ped_id pedido]),
      (MetodoDePagoAdmin, Links [pp_metodoId payment]),
      (Abono, Number (pp_amount payment)),
      (IDPago, Text idPago)]
     @ field_if_truthy QuienRealizoPago Choice (pp_quienPago payment)
     @ field_if_truthy NumeroDeReferencia Text (pp_referencia payment)
     @ field_if_truthy TarjetaDeDebito Text (pp_tarjeta payment)"

text \<open>
  The loop of \<open>handleSave\<close>; \<open>genId tr\<close> is the payment id generated when the calls
  \<open>tr\<close> have been issued.
\<close>

fun create_pagos_pagar ::
    "store \<Rightarrow> (call list \<Rightarrow> string) \<Rightarrow> call list \<Rightarrow> pedido_record \<Rightarrow> payment_pagar list
      \<Rightarrow> string option \<times> call list" where
  "create_pagos_pagar sto genId tr pedido [] = (None, tr)"
| "create_pagos_pagar sto genId tr pedido (payment # rest) =
     (let c = CreateRecordAsync PAGOS_TABLE (pago_fields_pagar pedido (genId tr) payment)
      in case sto tr c of
           Inl msg \<Rightarrow> (Some msg, tr @ [c])
         | Inr _ \<Rightarrow> create_pagos_pagar sto genId (tr @ [c]) pedido rest)"

definition newStatus :: "pedido_record \<Rightarrow> payment_pagar list \<Rightarrow> string" where
  "newStatus pedido ps =
     (let newPaidTotal = alreadyPaid pedido + addedPaymentsTotal ps;
          newRemaining = max (totalCosto_pagar pedido - newPaidTotal) 0
      in if newRemaining \<le> 0 then ''Pagado''
         else if newPaidTotal > 0 then ''Pago Incompleto''
         else ''Pendiente de Pago'')"

text \<open>
  \<open>handleSave\<close>.  The result is the alerts shown, whether the modal was closed
  (\<open>onClose\<close> called), and the trace of the calls issued to the store.
\<close>

definition handleSave ::
    "store \<Rightarrow> (call list \<Rightarrow> string) \<Rightarrow> pedido_record \<Rightarrow> pagar_state
      \<Rightarrow> alert list \<times> bool \<times> call list" where
  "handleSave sto genId pedido st =
     (if payments_pagar st = [] then ([NoPaymentsAdded], False, [])
      else
        case create_pagos_pagar sto genId [] pedido (payments_pagar st) of
          (Some msg, tr) \<Rightarrow> ([ErrorSavingPayment msg], False, tr)
        | (None, tr) \<Rightarrow>
            let c = UpdateRecordAsync PEDIDOS_TABLE (ped_id pedido)
                      [(Estatus, Choice (newStatus pedido (payments_pagar st)))]
            in (case sto tr c of
                  Inl msg \<Rightarrow> ([ErrorSavingPayment msg], False, tr @ [c])
                | Inr _ \<Rightarrow> ([], True, tr @ [c])))"

section \<open>The selection summary\<close>

definition openRecords :: "lpo_record list \<Rightarrow> lpo_record list" where
  "openRecords visibleRecords = filter (\<lambda>r. rec_estatus r = ''Abierto'') visibleRecords"

definition nonOpenRecords :: "lpo_record list \<Rightarrow> lpo_record list" where
  "nonOpenRecords visibleRecords = filter (\<lambda>r. rec_estatus r \<noteq> ''Abierto'') visibleRecords"

definition totalCost :: "lpo_record list \<Rightarrow> num" where
  "totalCost visibleRecords =
     foldl (\<lambda>sum r. sum + num_or (rec_costo r) 0) 0 (openRecords visibleRecords)"

definition selection_update :: "string \<Rightarrow> lpo_record \<Rightarrow> string \<times> fields" where
  "selection_update timestamp r =
     (rec_id r,
      [(Estatus, Choice ''Confirmar y Monitorear''),
       (HistorialDeEstatus,
          Text (append_history (rec_historial r) (timestamp @ '' - Confirmar y Monitorear'')))])"

text \<open>
  \<open>handleConfirmSelection\<close>.  The result is the alerts shown, the \<open>successInfo\<close> set
  (count and total cost) if the handler reached it, and the trace of the calls issued.
\<close>

definition handleConfirmSelection ::
    "store \<Rightarrow> string \<Rightarrow> lpo_record list \<Rightarrow> alert list \<times> (nat \<times> num) option \<times> call list" where
  "handleConfirmSelection sto timestamp visibleRecords =
     (if openRecords visibleRecords = []
      then ([NoOpenRecords (length (nonOpenRecords visibleRecords))], None, [])
      else
        let skipped = (if length (nonOpenRecords visibleRecords) > 0
                       then [RecordsWillBeSkipped (length (nonOpenRecords visibleRecords))]
                       else []);
            updates = map (selection_update timestamp) (openRecords visibleRecords);
            c = UpdateRecordsAsync LPO_TABLE updates
        in (case sto [] c of
              Inl msg \<Rightarrow> (skipped @ [ErrorUpdatingRecords msg], None, [c])
            | Inr _ \<Rightarrow> (skipped, Some (length updates, totalCost visibleRecords), [c])))"

section \<open>Sample inputs\<close>

text \<open>Concrete inputs at which the properties below are evaluated.\<close>

definition sample_line :: "string \<Rightarrow> string \<Rightarrow> string \<Rightarrow> string \<Rightarrow> num option \<Rightarrow> lpo_record" where
  "sample_line i e n l c =
     \<lparr>rec_id = i, rec_estatus = e, rec_no_pedido = n, rec_linea = l, rec_costo = c,
      rec_historial = []\<rparr>"

definition sample_group :: "string \<Rightarrow> lpo_record list \<Rightarrow> num \<Rightarrow> group" where
  "sample_group l rs t = \<lparr>pedidoNum = ''Sin No.'', linea = l, records = rs, totalCosto = t\<rparr>"

definition sample_payment :: "num \<Rightarrow> payment_confirmar" where
  "sample_payment a =
     \<lparr>pc_methodId = ''recMetodo1'', pc_amount = a, pc_idPago = [], pc_fechaPago = [],
      pc_descripcion = [], pc_notas = []\<rparr>"

definition sample_confirmar ::
    "string \<Rightarrow> num option \<Rightarrow> num option \<Rightarrow> payment_confirmar list \<Rightarrow> confirmar_state" where
  "sample_confirmar n e1 e2 ps =
     \<lparr>pedidoNumero = n, pedidoFecha = [], costosAdicionales = e1, gastosAdicionales = e2,
      paymentMethodId = None, paymentAmount = None, payments_confirmar = ps\<rparr>"

definition sample_pedido :: "num \<Rightarrow> num \<Rightarrow> pedido_record" where
  "sample_pedido t p =
     \<lparr>ped_id = ''recPedido1'', ped_total_costo = Some t, ped_monto_pagos = Some p\<rparr>"


definition sample_pagar :: "string option \<Rightarrow> num option \<Rightarrow> payment_pagar list \<Rightarrow> pagar_state" where
  "sample_pagar m a ps =
     \<lparr>metodoPagoId = m, abono = a, quienPago = Some ''CANA'', referencia = ''REF-7'',
      tarjeta = ''4152'', payments_pagar = ps\<rparr>"

definition accepting_store :: store where
  \<comment> \<open>A store that accepts every call.\<close>
  "accepting_store tr c = Inr ''recNew''"

definition airtable_store :: store where
  \<comment> \<open>A store that enforces the batch limit of 50 records and accepts everything else.\<close>
  "airtable_store tr c =
     (case c of
        UpdateRecordsAsync t us \<Rightarrow>
          if length us > 50 then Inl ''batch over 50 records'' else Inr []
      | _ \<Rightarrow> Inr ''recNew'')"

definition read_only_store :: store where
  \<comment> \<open>The store for a user without permission to write: every call is rejected.\<close>
  "read_only_store tr c = Inl ''no permission''"

definition sample_timestamp :: string where
  "sample_timestamp = ''2025-01-01T00:00:00.000Z''"

definition all_statuses :: "string list" where
  \<comment> \<open>The choices of a status field that offers the three payment statuses.\<close>
  "all_statuses = [''Pendiente de Pago'', ''Pago Incompleto'', ''Pagado'']"

definition drifted_statuses :: "string list" where
  \<comment> \<open>The choices of a status field of orders that does not offer \<open>Pagado\<close>.\<close>
  "drifted_statuses = [''Solicitado'', ''Enviado'', ''Pendiente de Pago'', ''Pago Incompleto'']"

definition many_lines :: "nat \<Rightarrow> lpo_record list" where
  \<comment> \<open>\<open>n\<close> open lines with distinct ids, each costing 1.\<close>
  "many_lines n =
     map (\<lambda>i. sample_line (''rec'' @ replicate i (CHR ''x'')) ''Abierto'' [] ''Belcorp'' (Some 1)) [0..<n]"

definition sample_payment_pagar :: "num \<Rightarrow> payment_pagar" where
  "sample_payment_pagar a =
     \<lparr>pp_metodoId = ''recEfectivo'', pp_amount = a, pp_quienPago = Some ''CANA'',
      pp_referencia = None, pp_tarjeta = None\<rparr>"




definition unlisted_group :: group where
  \<comment> \<open>A group of one line costing 100 whose brand has no entry in \<open>brandStatus\<close>.\<close>
  "unlisted_group =
     sample_group ''Zapatos Leon''
       [sample_line ''rec1'' ''Confirmar y Monitorear'' [] ''Zapatos Leon'' (Some 100)] 100"

definition paid_in_full :: confirmar_state where
  "paid_in_full = sample_confirmar ''P-1'' None None [sample_payment 100]"

definition colliding_lines :: "lpo_record list" where
  \<comment> \<open>Two lines that differ in order number and in brand, with the same concatenated key.\<close>
  "colliding_lines =
     [sample_line ''rec1'' ''Confirmar y Monitorear'' ''100'' ''A-Line'' (Some 20),
      sample_line ''rec2'' ''Confirmar y Monitorear'' ''100-A'' ''Line'' (Some 15)]"

section \<open>The invariant of the grouping\<close>

text \<open>
  What every step of the reduction keeps: the keys of the object are distinct, and each
  group is non-empty, holds lines of its key only, and totals the costs of its lines.
\<close>

definition keyed_ok :: "(string \<times> group) list \<Rightarrow> bool" where
  "keyed_ok gs =
     (distinct (map fst gs)
      \<and> list_all (\<lambda>(k, g). list_all (\<lambda>r. group_key r = k) (records g)
                          \<and> records g \<noteq> []
                          \<and> totalCosto g = sum_list (map (\<lambda>r. num_or (rec_costo r) 0) (records g))) gs)"

section \<open>Auxiliary facts\<close>

lemma num_or_zero: "num_or v 0 = (case v of None \<Rightarrow> 0 | Some x \<Rightarrow> x)"
  by (simp add: num_or_def split: option.splits)

lemma trim_P1: "trim ''P-1'' = ''P-1''"
  by (simp add: trim_def is_space_def)

section \<open>The monetary ledger\<close>

lemma foldl_plus_map: "foldl (\<lambda>sum p. sum + f p) (a::rat) ps = foldl (+) a (map f ps)"
  by (induction ps arbitrary: a) auto

lemma totalPaid_confirmar_fold: "totalPaid_confirmar ps = foldl (+) 0 (map pc_amount ps)"
  unfolding totalPaid_confirmar_def by (rule foldl_plus_map)

lemma addedPaymentsTotal_fold: "addedPaymentsTotal ps = foldl (+) 0 (map pp_amount ps)"
  unfolding addedPaymentsTotal_def by (rule foldl_plus_map)

text \<open>
  Claim C1, as the code has it.  In the settlement modal the total due is the cost of the
  group plus the two adjustments as entered (an adjustment that does not parse counts as
  0); the adjustments are not clamped at 0.  The total paid is the sum of the queued
  amounts, taken from the left, and the remaining balance is
  \<open>max (totalDue - totalPaid) 0\<close>: it is never negative, and it is 0 whenever the total
  paid reaches the total due.  The payment modal has no adjustments: its remaining
  balance is the total cost stored with the order, minus the amount already paid, minus
  the sum of the queued amounts, floored at 0; it is never negative, and it is 0 whenever
  that difference is not positive.
\<close>

theorem C1_ledger:
  "totalDue g st =
     totalCosto g + (case costosAdicionales st of None \<Rightarrow> 0 | Some e1 \<Rightarrow> e1)
                  + (case gastosAdicionales st of None \<Rightarrow> 0 | Some e2 \<Rightarrow> e2)
   \<and> totalPaid_confirmar (payments_confirmar st)
       = foldl (+) 0 (map pc_amount (payments_confirmar st))
   \<and> remaining_confirmar g st
       = max (totalDue g st - totalPaid_confirmar (payments_confirmar st)) 0
   \<and> 0 \<le> remaining_confirmar g st
   \<and> (totalDue g st \<le> totalPaid_confirmar (payments_confirmar st)
        \<longrightarrow> remaining_confirmar g st = 0)
   \<and> addedPaymentsTotal ps = foldl (+) 0 (map pp_amount ps)
   \<and> remaining_pagar pedido ps
       = max (totalCosto_pagar pedido - alreadyPaid pedido - addedPaymentsTotal ps) 0
   \<and> 0 \<le> remaining_pagar pedido ps
   \<and> (totalCosto_pagar pedido - alreadyPaid pedido - addedPaymentsTotal ps \<le> 0
        \<longrightarrow> remaining_pagar pedido ps = 0)"
  using totalPaid_confirmar_fold [of "payments_confirmar st"] addedPaymentsTotal_fold [of ps]
  by (simp add: totalDue_def extraCost_def extraExpenses_def num_or_zero
      remaining_confirmar_def remaining_pagar_def)

text \<open>
  Witness for C1: a group costing 50 with no adjustments and one payment of 50, and an
  order of 50 with nothing paid and one queued payment of 50; in both nothing remains.
\<close>

theorem C1_ledger_witness:
  "totalDue (sample_group ''Andrea'' [] 50)
       (sample_confirmar ''P-1'' (Some 0) (Some 0) [sample_payment 50])
     \<le> totalPaid_confirmar
          (payments_confirmar (sample_confirmar ''P-1'' (Some 0) (Some 0) [sample_payment 50]))
   \<and> remaining_confirmar (sample_group ''Andrea'' [] 50)
       (sample_confirmar ''P-1'' (Some 0) (Some 0) [sample_payment 50]) = 0
   \<and> totalCosto_pagar (sample_pedido 50 0) - alreadyPaid (sample_pedido 50 0)
        - addedPaymentsTotal [sample_payment_pagar 50] \<le> 0
   \<and> remaining_pagar (sample_pedido 50 0) [sample_payment_pagar 50] = 0"
proof -
  have a: "totalDue (sample_group ''Andrea'' [] 50)
       (sample_confirmar ''P-1'' (Some 0) (Some 0) [sample_payment 50])
     \<le> totalPaid_confirmar
          (payments_confirmar (sample_confirmar ''P-1'' (Some 0) (Some 0) [sample_payment 50]))"
    by (simp add: totalDue_def extraCost_def extraExpenses_def num_or_def totalPaid_confirmar_def
        sample_group_def sample_confirmar_def sample_payment_def)
  have b: "totalCosto_pagar (sample_pedido 50 0) - alreadyPaid (sample_pedido 50 0)
        - addedPaymentsTotal [sample_payment_pagar 50] \<le> 0"
    by (simp add: totalCosto_pagar_def alreadyPaid_def addedPaymentsTotal_def num_or_def
        sample_pedido_def sample_payment_pagar_def)
  note t = C1_ledger [of "sample_group ''Andrea'' [] 50"
        "sample_confirmar ''P-1'' (Some 0) (Some 0) [sample_payment 50]"
        "[sample_payment_pagar 50]" "sample_pedido 50 0"]
  from t a have r1: "remaining_confirmar (sample_group ''Andrea'' [] 50)
       (sample_confirmar ''P-1'' (Some 0) (Some 0) [sample_payment 50]) = 0"
    by blast
  from t b have r2: "remaining_pagar (sample_pedido 50 0) [sample_payment_pagar 50] = 0"
    by blast
  show ?thesis using a b r1 r2 by (intro conjI)
qed

text \<open>
  Counterexample to C1 as the specification states it: with a base cost of 100, an
  extra cost of -10 and no extra expenses, the total due is 90, not
  \<open>100 + max (-10) 0 + max 0 0 = 100\<close>; the negative adjustment has reduced it.
\<close>

theorem C1_negative_adjustment_counterexample:
  "totalDue (sample_group ''Belcorp'' [] 100) (sample_confirmar ''P-1'' (Some (-10)) (Some 0) []) = 90
   \<and> totalDue (sample_group ''Belcorp'' [] 100) (sample_confirmar ''P-1'' (Some (-10)) (Some 0) [])
       \<noteq> totalCosto (sample_group ''Belcorp'' [] 100) + max (-10) 0 + max 0 0
   \<and> totalDue (sample_group ''Belcorp'' [] 100) (sample_confirmar ''P-1'' (Some (-10)) (Some 0) [])
       < totalCosto (sample_group ''Belcorp'' [] 100)"
  by (simp add: totalDue_def extraCost_def extraExpenses_def num_or_def
      sample_group_def sample_confirmar_def)

section \<open>The status of an order\<close>









section \<open>Validation of a settlement\<close>

text \<open>
  Claim C3.  If the order number of a settlement is empty (or blank), or a balance
  remains while the brand of the group does not allow a pending payment, then
  \<open>handleConfirm\<close> only shows the validation alert: \<open>successData\<close> is not set and no
  call is issued to the store, whatever the store would answer (no order created, no
  payment created, no line updated).
\<close>

theorem C3_validation_before_writes:
  assumes "pedidoNumero st = [] \<or> trim (pedidoNumero st) = []
           \<or> (remaining_confirmar g st > 0 \<and> \<not> canLeavePending g)"
  shows "handleConfirm sto pedidoStatusChoices lineaStatusChoices timestamp g st =
           ([if pedidoNumero st = [] \<or> trim (pedidoNumero st) = []
             then OrderNumberRequired else FullPaymentRequired], None, [])"
  using assms by (auto simp: handleConfirm_def)

text \<open>
  Witness for C3: a settlement with an empty order number, and a settlement of a group
  of the brand Andrea (which must be paid in full) costing 100 with 95 paid, so that 5
  remain.
\<close>

theorem C3_validation_before_writes_witness:
  "pedidoNumero (sample_confirmar [] None None []) = []
   \<and> handleConfirm accepting_store all_statuses all_statuses sample_timestamp
        (sample_group ''Belcorp'' [sample_line ''rec1'' ''Confirmar y Monitorear'' [] ''Belcorp'' (Some 20)] 20)
        (sample_confirmar [] None None [])
       = ([OrderNumberRequired], None, [])
   \<and> remaining_confirmar (sample_group ''Andrea'' [sample_line ''rec1'' ''Confirmar y Monitorear'' [] ''Andrea'' (Some 100)] 100)
        (sample_confirmar ''P-1'' None None [sample_payment 95]) = 5
   \<and> \<not> canLeavePending (sample_group ''Andrea'' [sample_line ''rec1'' ''Confirmar y Monitorear'' [] ''Andrea'' (Some 100)] 100)
   \<and> handleConfirm accepting_store all_statuses all_statuses sample_timestamp
        (sample_group ''Andrea'' [sample_line ''rec1'' ''Confirmar y Monitorear'' [] ''Andrea'' (Some 100)] 100)
        (sample_confirmar ''P-1'' None None [sample_payment 95])
       = ([FullPaymentRequired], None, [])"
proof -
  let ?gD = "sample_group ''Belcorp'' [sample_line ''rec1'' ''Confirmar y Monitorear'' [] ''Belcorp'' (Some 20)] 20"
  let ?sD = "sample_confirmar [] None None []"
  let ?gE = "sample_group ''Andrea'' [sample_line ''rec1'' ''Confirmar y Monitorear'' [] ''Andrea'' (Some 100)] 100"
  let ?sE = "sample_confirmar ''P-1'' None None [sample_payment 95]"
  have d: "pedidoNumero ?sD = []" by (simp add: sample_confirmar_def)
  have r: "remaining_confirmar ?gE ?sE = 5"
    by (simp add: remaining_confirmar_def totalDue_def extraCost_def extraExpenses_def num_or_def
        totalPaid_confirmar_def sample_group_def sample_confirmar_def sample_payment_def)
  have p: "\<not> canLeavePending ?gE"
    by (simp add: canLeavePending_def preferredStatus_def brandStatus_lookup_def brandStatus_def
        str_or_def sample_group_def)
  have n: "pedidoNumero ?sE \<noteq> [] \<and> trim (pedidoNumero ?sE) \<noteq> []"
    by (simp add: sample_confirmar_def trim_def is_space_def)
  show ?thesis
    using C3_validation_before_writes [of ?sD ?gD accepting_store all_statuses all_statuses sample_timestamp]
      C3_validation_before_writes [of ?sE ?gE accepting_store all_statuses all_statuses sample_timestamp]
      d r p n by simp
qed

section \<open>Bulk updates of the lines\<close>

lemma openRecords_many_lines: "openRecords (many_lines n) = many_lines n"
  by (simp add: openRecords_def many_lines_def sample_line_def)

lemma length_many_lines: "length (many_lines n) = n"
  by (simp add: many_lines_def)

lemma canLeavePending_Belcorp: "canLeavePending (sample_group ''Belcorp'' rs t)"
  by (simp add: canLeavePending_def preferredStatus_def brandStatus_lookup_def brandStatus_def
        str_or_def sample_group_def)

lemma selection_of_51_single_call:
  "handleConfirmSelection airtable_store timestamp (many_lines 51) =
     ([ErrorUpdatingRecords ''batch over 50 records''], None,
      [UpdateRecordsAsync LPO_TABLE (map (selection_update timestamp) (many_lines 51))])
   \<and> length (map (selection_update timestamp) (many_lines 51)) = 51"
proof -
  have ne: "many_lines 51 \<noteq> []"
    using length_many_lines [of 51] by auto
  have no: "nonOpenRecords (many_lines 51) = []"
    by (simp add: nonOpenRecords_def many_lines_def sample_line_def)
  show ?thesis
    by (simp add: handleConfirmSelection_def openRecords_many_lines ne no Let_def
        airtable_store_def length_many_lines)
qed

lemma settlement_of_51_single_call:
  "handleConfirm airtable_store all_statuses all_statuses timestamp
      (sample_group ''Belcorp'' (many_lines 51) 51) (sample_confirmar ''P-1'' None None []) =
     ([ErrorConfirmingOrder ''batch over 50 records''], None,
      [CreateRecordAsync PEDIDOS_TABLE
         (pedido_fields all_statuses timestamp (sample_group ''Belcorp'' (many_lines 51) 51)
            (sample_confirmar ''P-1'' None None [])),
       UpdateRecordsAsync LPO_TABLE
         (map (linea_update all_statuses timestamp (sample_group ''Belcorp'' (many_lines 51) 51)
                 (sample_confirmar ''P-1'' None None []))
              (many_lines 51))])"
proof -
  have a: "pedidoNumero (sample_confirmar ''P-1'' None None []) = ''P-1''"
    and b: "payments_confirmar (sample_confirmar ''P-1'' None None []) = []"
    by (simp_all add: sample_confirmar_def)
  have c: "records (sample_group ''Belcorp'' (many_lines 51) 51) = many_lines 51"
    by (simp add: sample_group_def)
  show ?thesis
    by (simp add: handleConfirm_def a b c trim_P1 canLeavePending_Belcorp Let_def
        airtable_store_def length_many_lines)
qed

text \<open>
  Whatever the selection, \<open>handleConfirmSelection\<close> issues at most one call, and that
  call carries the updates of all open lines.
\<close>

lemma handleConfirmSelection_calls:
  "snd (snd (handleConfirmSelection sto timestamp visibleRecords)) =
     (if openRecords visibleRecords = [] then []
      else [UpdateRecordsAsync LPO_TABLE
              (map (selection_update timestamp) (openRecords visibleRecords))])"
  by (simp add: handleConfirmSelection_def Let_def split: sum.splits)

text \<open>
  Claim C4 at a selection, and at a group, of 51 lines.  Both handlers issue one
  \<open>updateRecordsAsync\<close> call that carries all 51 updates; the update is not split into
  batches of at most 50.  A store that enforces the limit rejects the call, so no line
  is updated, and in the settlement the order has been created by then.
\<close>

theorem C4_updates_not_batched:
  "handleConfirmSelection airtable_store timestamp (many_lines 51) =
     ([ErrorUpdatingRecords ''batch over 50 records''], None,
      [UpdateRecordsAsync LPO_TABLE (map (selection_update timestamp) (many_lines 51))])
   \<and> length (map (selection_update timestamp) (many_lines 51)) = 51
   \<and> handleConfirm airtable_store all_statuses all_statuses timestamp
      (sample_group ''Belcorp'' (many_lines 51) 51) (sample_confirmar ''P-1'' None None []) =
     ([ErrorConfirmingOrder ''batch over 50 records''], None,
      [CreateRecordAsync PEDIDOS_TABLE
         (pedido_fields all_statuses timestamp (sample_group ''Belcorp'' (many_lines 51) 51)
            (sample_confirmar ''P-1'' None None [])),
       UpdateRecordsAsync LPO_TABLE
         (map (linea_update all_statuses timestamp (sample_group ''Belcorp'' (many_lines 51) 51)
                 (sample_confirmar ''P-1'' None None []))
              (many_lines 51))])"
  using selection_of_51_single_call [of timestamp] settlement_of_51_single_call [of timestamp]
  by simp

section \<open>Validation of the status written\<close>

text \<open>
  The validation of the settlement: when the field offers a first choice with a
  non-empty name, the status written is one of the choices of the field.
\<close>

lemma safeStatus_in_choices:
  assumes "choices \<noteq> []" and "hd choices \<noteq> []"
  shows "safeStatus allowed choices s \<in> set choices"
  using assms by (cases choices) (auto simp: safeStatus_def fallbackStatus_def str_or_def)

text \<open>
  Claim C5 at a payment of 100 registered for an order of 100 whose status field does
  not offer \<open>Pagado\<close>.  \<open>handleSave\<close> writes \<open>Pagado\<close>, which is not among the
  choices of the field; the validation of the settlement (\<open>safeStatus\<close>) would have
  written \<open>Pendiente de Pago\<close>.  \<open>handleSave\<close> does not read the choices at all.
\<close>

theorem C5_payment_flow_unvalidated:
  "handleSave accepting_store genId (sample_pedido 100 0)
      (sample_pagar None None [sample_payment_pagar 100]) =
     ([], True,
      [CreateRecordAsync PAGOS_TABLE
         (pago_fields_pagar (sample_pedido 100 0) (genId []) (sample_payment_pagar 100)),
       UpdateRecordAsync PEDIDOS_TABLE ''recPedido1'' [(Estatus, Choice ''Pagado'')]])
   \<and> ''Pagado'' \<notin> set drifted_statuses
   \<and> safeStatus allowedPedidoStatuses drifted_statuses ''Pagado'' = ''Pendiente de Pago''"
  by (simp add: handleSave_def sample_pagar_def sample_pedido_def sample_payment_pagar_def
      accepting_store_def newStatus_def alreadyPaid_def totalCosto_pagar_def addedPaymentsTotal_def
      num_or_def Let_def drifted_statuses_def safeStatus_def fallbackStatus_def
      allowedPedidoStatuses_def)

section \<open>The status of the lines of a settlement\<close>

text \<open>
  The preferred status is never falsy, so \<open>preferredStatus || pedidoStatus\<close> is the
  preferred status for every group: the status of the order is never taken.
\<close>

lemma preferredStatus_nonempty: "preferredStatus g \<noteq> Str []"
  by (auto simp: preferredStatus_def str_or_def split: option.splits js_value.splits)

lemma rawLineaStatus_is_preferred: "rawLineaStatus g st = preferredStatus g"
  using preferredStatus_nonempty [of g]
  by (cases "preferredStatus g") (simp_all add: rawLineaStatus_def str_or_def)

lemma unlisted_group_remaining: "remaining_confirmar unlisted_group paid_in_full = 0"
  by (simp add: remaining_confirmar_def totalDue_def extraCost_def extraExpenses_def num_or_def
      totalPaid_confirmar_def unlisted_group_def paid_in_full_def sample_group_def
      sample_confirmar_def sample_payment_def)

lemma unlisted_group_brand: "map_of brandStatus (linea unlisted_group) = None"
  by (simp add: unlisted_group_def sample_group_def brandStatus_def)

lemma unlisted_group_pedido_status:
  "safePedidoStatus all_statuses unlisted_group paid_in_full = ''Pagado''"
proof -
  have "totalPaid_confirmar (payments_confirmar paid_in_full) = 100"
    by (simp add: totalPaid_confirmar_def paid_in_full_def sample_confirmar_def sample_payment_def)
  then show ?thesis
    by (simp add: safePedidoStatus_def unlisted_group_remaining pedidoStatus_def safeStatus_def
        allowedPedidoStatuses_def all_statuses_def)
qed

lemma unlisted_group_linea_status:
  "safeLineaStatus all_statuses unlisted_group paid_in_full = ''Pendiente de Pago''"
proof -
  have "linea unlisted_group \<notin> set object_prototype_members"
    by (simp add: unlisted_group_def sample_group_def object_prototype_members_def)
  then have "preferredStatus unlisted_group = Str ''Pendiente de Pago''"
    by (simp add: preferredStatus_def brandStatus_lookup_def unlisted_group_brand)
  then show ?thesis
    by (simp add: safeLineaStatus_def rawLineaStatus_is_preferred safeStatus_def
        allowedLineaStatuses_def all_statuses_def)
qed

lemma settlement_of_unlisted_group:
  "handleConfirm accepting_store all_statuses all_statuses timestamp unlisted_group paid_in_full =
       ([], Some (''Zapatos Leon'', 1, 100),
        [CreateRecordAsync PEDIDOS_TABLE
           [(NoDePedido, Text ''P-1''), (Estatus, Choice ''Pagado''), (FechaPedido, Null),
            (CostosAdicionales, Number 0), (GastosAdicionales, Number 0),
            (HistorialDeEstatus, Text (timestamp @ '' - Creado y establecido a Pagado'')),
            (Productos, Links [''rec1''])],
         CreateRecordAsync PAGOS_TABLE
           [(Pedido, Links [''recNew'']), (MetodoDePagoAdmin, Links [''recMetodo1'']),
            (Abono, Number 100), (IDPago, Null), (FechaPago, Null), (Descripcion, Null),
            (Notas, Null)],
         UpdateRecordsAsync LPO_TABLE
           [(''rec1'',
             [(Estatus, Choice ''Pendiente de Pago''), (NoDePedido, Text ''P-1''),
              (HistorialDeEstatus,
                 Text (timestamp @ '' - Asignado No. de Pedido P-1 y cambiado a Pendiente de Pago''))])]])"
proof -
  have n: "pedidoNumero paid_in_full = ''P-1''"
    by (simp add: paid_in_full_def sample_confirmar_def)
  have st: "payments_confirmar paid_in_full = [sample_payment 100]"
    "pedidoFecha paid_in_full = []" "costosAdicionales paid_in_full = None"
    "gastosAdicionales paid_in_full = None"
    by (simp_all add: paid_in_full_def sample_confirmar_def)
  have gr: "linea unlisted_group = ''Zapatos Leon''" "totalCosto unlisted_group = 100"
    "records unlisted_group =
       [sample_line ''rec1'' ''Confirmar y Monitorear'' [] ''Zapatos Leon'' (Some 100)]"
    by (simp_all add: unlisted_group_def sample_group_def)
  show ?thesis
    by (simp add: handleConfirm_def n trim_P1 unlisted_group_remaining
        unlisted_group_pedido_status unlisted_group_linea_status Let_def accepting_store_def
        pedido_fields_def pago_fields_confirmar_def linea_update_def text_or_null_def
        append_history_def str_or_def extraCost_def extraExpenses_def num_or_def st gr
        sample_payment_def sample_line_def)
qed

text \<open>
  Claim C6 at a fully paid group whose brand has no entry in \<open>brandStatus\<close>.  The order
  is created with the status \<open>Pagado\<close>, and its line is updated to
  \<open>Pendiente de Pago\<close>: \<open>preferredStatus\<close> is already defaulted, so the fallback
  \<open>preferredStatus || pedidoStatus\<close> never takes the status of the order.
\<close>

theorem C6_unlisted_brand_lines_pending:
  "map_of brandStatus (linea unlisted_group) = None
   \<and> remaining_confirmar unlisted_group paid_in_full = 0
   \<and> safePedidoStatus all_statuses unlisted_group paid_in_full = ''Pagado''
   \<and> safeLineaStatus all_statuses unlisted_group paid_in_full = ''Pendiente de Pago''
   \<and> handleConfirm accepting_store all_statuses all_statuses timestamp unlisted_group paid_in_full =
       ([], Some (''Zapatos Leon'', 1, 100),
        [CreateRecordAsync PEDIDOS_TABLE
           [(NoDePedido, Text ''P-1''), (Estatus, Choice ''Pagado''), (FechaPedido, Null),
            (CostosAdicionales, Number 0), (GastosAdicionales, Number 0),
            (HistorialDeEstatus, Text (timestamp @ '' - Creado y establecido a Pagado'')),
            (Productos, Links [''rec1''])],
         CreateRecordAsync PAGOS_TABLE
           [(Pedido, Links [''recNew'']), (MetodoDePagoAdmin, Links [''recMetodo1'']),
            (Abono, Number 100), (IDPago, Null), (FechaPago, Null), (Descripcion, Null),
            (Notas, Null)],
         UpdateRecordsAsync LPO_TABLE
           [(''rec1'',
             [(Estatus, Choice ''Pendiente de Pago''), (NoDePedido, Text ''P-1''),
              (HistorialDeEstatus,
                 Text (timestamp @ '' - Asignado No. de Pedido P-1 y cambiado a Pendiente de Pago''))])]])"
  using unlisted_group_brand unlisted_group_remaining unlisted_group_pedido_status
    unlisted_group_linea_status settlement_of_unlisted_group [of timestamp]
  by simp

section \<open>Adding a payment in the payment modal\<close>




section \<open>Grouping of the lines\<close>

lemma group_step_absent:
  assumes "group_key r \<notin> fst ` set gs"
  shows "group_step gs r =
           gs @ [(group_key r,
                  \<lparr>pedidoNum = str_or (rec_no_pedido r) ''Sin No.'', linea = rec_linea r,
                   records = [r], totalCosto = num_or (rec_costo r) 0\<rparr>)]"
proof -
  have n: "map_of gs (group_key r) = None"
    using assms by (simp add: map_of_eq_None_iff)
  have "map (\<lambda>(k, g). if k = group_key r
               then (k, g\<lparr>records := records g @ [r],
                          totalCosto := totalCosto g + num_or (rec_costo r) 0\<rparr>)
               else (k, g)) gs = gs"
    using assms by (intro map_idI) force
  then show ?thesis
    by (simp add: group_step_def Let_def n)
qed

lemma group_step_present:
  assumes "group_key r \<in> fst ` set gs"
  shows "group_step gs r =
           map (\<lambda>(k, g). if k = group_key r
               then (k, g\<lparr>records := records g @ [r],
                          totalCosto := totalCosto g + num_or (rec_costo r) 0\<rparr>)
               else (k, g)) gs"
proof -
  have "map_of gs (group_key r) \<noteq> None"
    using assms by (simp add: map_of_eq_None_iff)
  then show ?thesis
    by (simp add: group_step_def Let_def)
qed

lemma fst_group_step:
  "map fst (group_step gs r) =
     (if group_key r \<in> fst ` set gs then map fst gs else map fst gs @ [group_key r])"
proof (cases "group_key r \<in> fst ` set gs")
  case True
  have "map fst (map (\<lambda>(k, g). if k = group_key r
               then (k, g\<lparr>records := records g @ [r],
                          totalCosto := totalCosto g + num_or (rec_costo r) 0\<rparr>)
               else (k, g)) gs) = map fst gs"
    by (induction gs) (auto split: prod.splits)
  with True show ?thesis by (simp add: group_step_present)
next
  case False
  then show ?thesis by (simp add: group_step_absent)
qed

lemma keyed_ok_step:
  assumes ok: "keyed_ok gs"
  shows "keyed_ok (group_step gs r)"
proof (cases "group_key r \<in> fst ` set gs")
  case True
  define P :: "string \<times> group \<Rightarrow> bool" where
    "P = (\<lambda>(k, g). list_all (\<lambda>r. group_key r = k) (records g)
                          \<and> records g \<noteq> []
                          \<and> totalCosto g = sum_list (map (\<lambda>r. num_or (rec_costo r) 0) (records g)))"
  define upd :: "string \<times> group \<Rightarrow> string \<times> group" where
    "upd = (\<lambda>(k, g). if k = group_key r
               then (k, g\<lparr>records := records g @ [r],
                          totalCosto := totalCosto g + num_or (rec_costo r) 0\<rparr>)
               else (k, g))"
  have step: "P (upd kg)" if "P kg" for kg
  proof -
    obtain k g where kg: "kg = (k, g)" by (cases kg)
    show ?thesis using that unfolding P_def upd_def kg by (auto simp: list_all_iff)
  qed
  have d: "distinct (map fst (group_step gs r))"
    using ok True by (simp add: fst_group_step keyed_ok_def)
  have "list_all P gs"
    using ok by (simp add: keyed_ok_def P_def)
  then have "list_all P (map upd gs)"
    using step by (simp add: list_all_iff)
  then have "list_all P (group_step gs r)"
    by (simp add: group_step_present [OF True] upd_def)
  with d show ?thesis by (simp add: keyed_ok_def P_def)
next
  case False
  have d: "distinct (map fst (group_step gs r))"
    using ok False by (simp add: fst_group_step keyed_ok_def)
  have "list_all (\<lambda>(k, g). list_all (\<lambda>r. group_key r = k) (records g)
                          \<and> records g \<noteq> []
                          \<and> totalCosto g = sum_list (map (\<lambda>r. num_or (rec_costo r) 0) (records g)))
          (group_step gs r)"
    using ok by (simp add: keyed_ok_def group_step_absent [OF False])
  with d show ?thesis by (simp add: keyed_ok_def)
qed

lemma records_step:
  assumes "distinct (map fst gs)"
  shows "mset (concat (map (\<lambda>kg. records (snd kg)) (group_step gs r)))
           = mset (concat (map (\<lambda>kg. records (snd kg)) gs)) + {#r#}"
proof (cases "group_key r \<in> fst ` set gs")
  case True
  have "distinct (map fst gs) \<Longrightarrow> group_key r \<in> fst ` set gs \<Longrightarrow>
        mset (concat (map (\<lambda>kg. records (snd kg))
          (map (\<lambda>(k, g). if k = group_key r
               then (k, g\<lparr>records := records g @ [r],
                          totalCosto := totalCosto g + num_or (rec_costo r) 0\<rparr>)
               else (k, g)) gs)))
        = mset (concat (map (\<lambda>kg. records (snd kg)) gs)) + {#r#}"
  proof (induction gs)
    case Nil
    then show ?case by simp
  next
    case (Cons kg gs)
    obtain k g where kg: "kg = (k, g)" by (cases kg)
    show ?case
    proof (cases "k = group_key r")
      case True
      then have "group_key r \<notin> fst ` set gs"
        using Cons.prems(1) kg by auto
      then have "map (\<lambda>(k, g). if k = group_key r
               then (k, g\<lparr>records := records g @ [r],
                          totalCosto := totalCosto g + num_or (rec_costo r) 0\<rparr>)
               else (k, g)) gs = gs"
        by (intro map_idI) force
      then show ?thesis using True kg by simp
    next
      case False
      then have "group_key r \<in> fst ` set gs"
        using Cons.prems(2) kg by auto
      with Cons.IH Cons.prems(1) False kg show ?thesis by simp
    qed
  qed
  with assms True show ?thesis by (simp add: group_step_present)
next
  case False
  then show ?thesis by (simp add: group_step_absent)
qed

lemma totals_step:
  assumes "distinct (map fst gs)"
  shows "sum_list (map (\<lambda>kg. totalCosto (snd kg)) (group_step gs r))
           = sum_list (map (\<lambda>kg. totalCosto (snd kg)) gs) + num_or (rec_costo r) 0"
proof (cases "group_key r \<in> fst ` set gs")
  case True
  have "distinct (map fst gs) \<Longrightarrow> group_key r \<in> fst ` set gs \<Longrightarrow>
        sum_list (map (\<lambda>kg. totalCosto (snd kg))
          (map (\<lambda>(k, g). if k = group_key r
               then (k, g\<lparr>records := records g @ [r],
                          totalCosto := totalCosto g + num_or (rec_costo r) 0\<rparr>)
               else (k, g)) gs))
        = sum_list (map (\<lambda>kg. totalCosto (snd kg)) gs) + num_or (rec_costo r) 0"
  proof (induction gs)
    case Nil
    then show ?case by simp
  next
    case (Cons kg gs)
    obtain k g where kg: "kg = (k, g)" by (cases kg)
    show ?case
    proof (cases "k = group_key r")
      case True
      then have "group_key r \<notin> fst ` set gs"
        using Cons.prems(1) kg by auto
      then have "map (\<lambda>(k, g). if k = group_key r
               then (k, g\<lparr>records := records g @ [r],
                          totalCosto := totalCosto g + num_or (rec_costo r) 0\<rparr>)
               else (k, g)) gs = gs"
        by (intro map_idI) force
      then show ?thesis using True kg by simp
    next
      case False
      then have "group_key r \<in> fst ` set gs"
        using Cons.prems(2) kg by auto
      with Cons.IH Cons.prems(1) False kg show ?thesis by simp
    qed
  qed
  with assms True show ?thesis by (simp add: group_step_present)
next
  case False
  then show ?thesis by (simp add: group_step_absent)
qed

lemma foldl_group_step:
  "keyed_ok gs \<Longrightarrow>
     keyed_ok (foldl group_step gs rs)
     \<and> mset (concat (map (\<lambda>kg. records (snd kg)) (foldl group_step gs rs)))
         = mset (concat (map (\<lambda>kg. records (snd kg)) gs)) + mset rs
     \<and> sum_list (map (\<lambda>kg. totalCosto (snd kg)) (foldl group_step gs rs))
         = sum_list (map (\<lambda>kg. totalCosto (snd kg)) gs)
           + sum_list (map (\<lambda>r. num_or (rec_costo r) 0) rs)"
proof (induction rs arbitrary: gs)
  case Nil
  then show ?case by simp
next
  case (Cons r rs)
  have d: "distinct (map fst gs)" using Cons.prems by (simp add: keyed_ok_def)
  have ok: "keyed_ok (group_step gs r)" using Cons.prems by (rule keyed_ok_step)
  from Cons.IH [OF ok] show ?case
    by (simp add: records_step [OF d] totals_step [OF d] add.assoc)
qed

lemma keyed_ok_recordsByPedido: "keyed_ok (recordsByPedido rs)"
  using foldl_group_step [of "[]" rs] by (simp add: recordsByPedido_def keyed_ok_def)

text \<open>
  What the grouping does keep.  Every line is in exactly one group: the lines of the
  groups are, with multiplicities, the lines given.
\<close>

lemma groupedByPedido_lines: "mset (concat (map records (groupedByPedido rs))) = mset rs"
  using foldl_group_step [of "[]" rs]
  by (simp add: groupedByPedido_def recordsByPedido_def keyed_ok_def comp_def)

text \<open>
  In exact arithmetic, the totals of the groups add up to the costs of all lines, an
  empty cost counting as 0.
\<close>

lemma groupedByPedido_sum:
  "sum_list (map totalCosto (groupedByPedido rs))
     = sum_list (map (\<lambda>r. num_or (rec_costo r) 0) rs)"
  using foldl_group_step [of "[]" rs]
  by (simp add: groupedByPedido_def recordsByPedido_def keyed_ok_def comp_def)

text \<open>In exact arithmetic, the total of a group is the sum of the costs of its lines.\<close>

lemma groupedByPedido_totalCosto:
  assumes "g \<in> set (groupedByPedido rs)"
  shows "totalCosto g = sum_list (map (\<lambda>r. num_or (rec_costo r) 0) (records g))"
  using assms keyed_ok_recordsByPedido [of rs]
  by (auto simp: groupedByPedido_def keyed_ok_def list_all_iff)

text \<open>Two lines are in the same group exactly when their concatenated keys agree.\<close>

lemma groupedByPedido_same_key:
  assumes "g \<in> set (groupedByPedido rs)" and "r \<in> set (records g)" and "r' \<in> set rs"
  shows "(r' \<in> set (records g)) = (group_key r' = group_key r)"
proof -
  let ?gs = "recordsByPedido rs"
  have ok: "keyed_ok ?gs" by (rule keyed_ok_recordsByPedido)
  from assms(1) obtain k where kg: "(k, g) \<in> set ?gs"
    by (auto simp: groupedByPedido_def)
  have keys: "\<And>k' g' x. (k', g') \<in> set ?gs \<Longrightarrow> x \<in> set (records g') \<Longrightarrow> group_key x = k'"
    using ok by (auto simp: keyed_ok_def list_all_iff)
  have kr: "group_key r = k" using keys [OF kg assms(2)] .
  have "r' \<in># mset (concat (map records (groupedByPedido rs)))"
    using assms(3) by (simp add: groupedByPedido_lines)
  then obtain g' where g': "g' \<in> set (groupedByPedido rs)" and r'g': "r' \<in> set (records g')"
    by auto
  then obtain k' where k'g': "(k', g') \<in> set ?gs"
    by (auto simp: groupedByPedido_def)
  have kr': "group_key r' = k'" using keys [OF k'g' r'g'] .
  show ?thesis
  proof
    assume "r' \<in> set (records g)"
    then show "group_key r' = group_key r" using keys [OF kg] kr by simp
  next
    assume "group_key r' = group_key r"
    then have "k' = k" using kr kr' by simp
    moreover have "distinct (map fst ?gs)" using ok by (simp add: keyed_ok_def)
    ultimately have "g' = g" using kg k'g' by (meson eq_key_imp_eq_value)
    then show "r' \<in> set (records g)" using r'g' by simp
  qed
qed

text \<open>
  Claim C8 at two lines that differ in order number and in brand: order number
  \<open>100\<close> with brand \<open>A-Line\<close>, and order number \<open>100-A\<close> with brand \<open>Line\<close>.  Both
  have the key \<open>100-A-Line\<close>, so the grouping puts them into one group, shown under the
  order number and the brand of the first.
\<close>

theorem C8_key_collision:
  "groupedByPedido colliding_lines =
     [\<lparr>pedidoNum = ''100'', linea = ''A-Line'', records = colliding_lines, totalCosto = 35\<rparr>]
   \<and> map (\<lambda>r. (str_or (rec_no_pedido r) ''Sin No.'', rec_linea r)) colliding_lines
       = [(''100'', ''A-Line''), (''100-A'', ''Line'')]"
  by (simp add: groupedByPedido_def recordsByPedido_def group_step_def group_key_def
      colliding_lines_def sample_line_def str_or_def num_or_def Let_def)

section \<open>Permissions\<close>

text \<open>
  Claim C9 for a user without permission to write.  None of the three handlers asks
  for a permission before it writes (there is no such query in them, and the model has no
  input for its answer): each issues its first write, which the store rejects, and shows
  the error of the rejected call.
\<close>

theorem C9_writes_without_permission_check:
  "handleConfirmSelection read_only_store timestamp
      [sample_line ''rec1'' ''Abierto'' [] ''Belcorp'' (Some 20)] =
     ([ErrorUpdatingRecords ''no permission''], None,
      [UpdateRecordsAsync LPO_TABLE
         [selection_update timestamp (sample_line ''rec1'' ''Abierto'' [] ''Belcorp'' (Some 20))]])
   \<and> handleSave read_only_store genId (sample_pedido 100 0)
        (sample_pagar None None [sample_payment_pagar 100]) =
     ([ErrorSavingPayment ''no permission''], False,
      [CreateRecordAsync PAGOS_TABLE
         (pago_fields_pagar (sample_pedido 100 0) (genId []) (sample_payment_pagar 100))])
   \<and> handleConfirm read_only_store all_statuses all_statuses timestamp unlisted_group paid_in_full =
     ([ErrorConfirmingOrder ''no permission''], None,
      [CreateRecordAsync PEDIDOS_TABLE
         (pedido_fields all_statuses timestamp unlisted_group paid_in_full)])"
proof -
  have a: "handleConfirmSelection read_only_store timestamp
      [sample_line ''rec1'' ''Abierto'' [] ''Belcorp'' (Some 20)] =
     ([ErrorUpdatingRecords ''no permission''], None,
      [UpdateRecordsAsync LPO_TABLE
         [selection_update timestamp (sample_line ''rec1'' ''Abierto'' [] ''Belcorp'' (Some 20))]])"
    by (simp add: handleConfirmSelection_def openRecords_def nonOpenRecords_def sample_line_def
        read_only_store_def Let_def)
  have b: "handleSave read_only_store genId (sample_pedido 100 0)
        (sample_pagar None None [sample_payment_pagar 100]) =
     ([ErrorSavingPayment ''no permission''], False,
      [CreateRecordAsync PAGOS_TABLE
         (pago_fields_pagar (sample_pedido 100 0) (genId []) (sample_payment_pagar 100))])"
    by (simp add: handleSave_def sample_pagar_def read_only_store_def Let_def)
  have r: "remaining_confirmar unlisted_group paid_in_full = 0"
    by (simp add: remaining_confirmar_def totalDue_def extraCost_def extraExpenses_def num_or_def
        totalPaid_confirmar_def unlisted_group_def paid_in_full_def sample_group_def
        sample_confirmar_def sample_payment_def)
  have n: "pedidoNumero paid_in_full = ''P-1''"
    by (simp add: paid_in_full_def sample_confirmar_def)
  have c: "handleConfirm read_only_store all_statuses all_statuses timestamp unlisted_group paid_in_full =
     ([ErrorConfirmingOrder ''no permission''], None,
      [CreateRecordAsync PEDIDOS_TABLE
         (pedido_fields all_statuses timestamp unlisted_group paid_in_full)])"
    by (simp add: handleConfirm_def n trim_P1 r read_only_store_def Let_def)
  show ?thesis using a b c by simp
qed

section \<open>The optional fields of a payment record\<close>









end
